theory Spec2Isabelle
  imports Main "HOL-Library.Multiset"
begin

section \<open>JavaScript values\<close>

text \<open>
  \<^verbatim>\<open>server.js\<close> is dynamically typed: request bodies, token payloads and the rows that
  the hosted store returns are all plain JavaScript values. They are modelled by one
  datatype. Numbers are restricted to integers plus \<open>NaN\<close> (the only non-integer the
  handlers can produce themselves, through \<open>parseInt\<close>); \<open>JNum n\<close> stands for the
  JavaScript number \<open>n\<close> where that number is exact, that is for a magnitude below \<open>2^53\<close>.
  A string is its sequence of bytes. An object is an association list read from the left.
\<close>

datatype jsval =
    JUndefined
  | JNull
  | JBool bool
  | JNum int
  | JNaN
  | JStr string
  | JArr "jsval list"
  | JObj "(string \<times> jsval) list"

type_synonym obj = "(string \<times> jsval) list"

text \<open>JavaScript truthiness, as used by \<open>!x\<close>, \<open>x || y\<close>, \<open>x ? a : b\<close> and \<open>if (x)\<close>.\<close>

fun truthy :: "jsval \<Rightarrow> bool" where
  "truthy JUndefined = False"
| "truthy JNull = False"
| "truthy (JBool b) = b"
| "truthy (JNum n) = (n \<noteq> 0)"
| "truthy JNaN = False"
| "truthy (JStr s) = (s \<noteq> [])"
| "truthy (JArr xs) = True"
| "truthy (JObj kvs) = True"

text \<open>\<open>a || b\<close>\<close>

definition js_or :: "jsval \<Rightarrow> jsval \<Rightarrow> jsval" where
  "js_or a b = (if truthy a then a else b)"

text \<open>
  \<open>a === b\<close>: primitives compare by value, \<open>NaN\<close> equals nothing, and two objects or
  arrays that reach a handler from different places (a stored row and a token payload)
  are never the same reference.
\<close>

fun strict_eq :: "jsval \<Rightarrow> jsval \<Rightarrow> bool" where
  "strict_eq JUndefined b = (b = JUndefined)"
| "strict_eq JNull b = (b = JNull)"
| "strict_eq (JBool x) b = (b = JBool x)"
| "strict_eq (JNum n) b = (b = JNum n)"
| "strict_eq JNaN b = False"
| "strict_eq (JStr s) b = (b = JStr s)"
| "strict_eq (JArr xs) b = False"
| "strict_eq (JObj kvs) b = False"

text \<open>
  Property read with optional chaining, \<open>o?.k\<close>: \<open>undefined\<close> when \<open>o\<close> is \<open>null\<close> or
  \<open>undefined\<close> or has no such key. A plain \<open>o.k\<close> on \<open>null\<close> throws instead; the
  handlers below branch on that case explicitly before they use \<open>field\<close>.
\<close>

fun field :: "jsval \<Rightarrow> string \<Rightarrow> jsval" where
  "field (JObj kvs) k = (case map_of kvs k of Some v \<Rightarrow> v | None \<Rightarrow> JUndefined)"
| "field v k = JUndefined"

definition nullish :: "jsval \<Rightarrow> bool" where
  "nullish v = (v = JNull \<or> v = JUndefined)"

text \<open>\<open>o[k] = v\<close> on an object: an existing key keeps its position.\<close>

fun set_field :: "string \<Rightarrow> jsval \<Rightarrow> obj \<Rightarrow> obj" where
  "set_field k v [] = [(k, v)]"
| "set_field k v ((k', v') # rest) =
     (if k = k' then (k, v) # rest else (k', v') # set_field k v rest)"

subsection \<open>Number to string, string to number\<close>

fun string_of_nat :: "nat \<Rightarrow> string" where
  "string_of_nat n =
     (if n < 10 then [''0123456789'' ! n]
      else string_of_nat (n div 10) @ [''0123456789'' ! (n mod 10)])"

declare string_of_nat.simps [simp del]

definition string_of_int :: "int \<Rightarrow> string" where
  "string_of_int i = (if i < 0 then CHR ''-'' # string_of_nat (nat (- i)) else string_of_nat (nat i))"

fun join_comma :: "string list \<Rightarrow> string" where
  "join_comma [] = []"
| "join_comma [s] = s"
| "join_comma (s # t # rest) = s @ '','' @ join_comma (t # rest)"

text \<open>
  \<open>String(v)\<close>, which is also what a template literal \<open>`${v}`\<close> applies. Numbers are
  printed digit by digit, as JavaScript does below \<open>10^21\<close>.
\<close>

fun to_string :: "jsval \<Rightarrow> string" where
  "to_string JUndefined = ''undefined''"
| "to_string JNull = ''null''"
| "to_string (JBool b) = (if b then ''true'' else ''false'')"
| "to_string (JNum n) = string_of_int n"
| "to_string JNaN = ''NaN''"
| "to_string (JStr s) = s"
| "to_string (JArr xs) =
     join_comma (map (\<lambda>x. if x = JNull \<or> x = JUndefined then [] else to_string x) xs)"
| "to_string (JObj kvs) = ''[object Object]''"

definition is_space :: "char \<Rightarrow> bool" where
  "is_space c = (c \<in> set [CHR 0x09, CHR 0x0A, CHR 0x0B, CHR 0x0C, CHR 0x0D, CHR '' ''])"

text \<open>The digits that base 10 and base 16 can use (the only two bases reached without a radix argument).\<close>

definition digit_table :: "(char \<times> nat) list" where
  "digit_table =
     [(CHR ''0'', 0), (CHR ''1'', 1), (CHR ''2'', 2), (CHR ''3'', 3), (CHR ''4'', 4), (CHR ''5'', 5), (CHR ''6'', 6), (CHR ''7'', 7), (CHR ''8'', 8), (CHR ''9'', 9),
      (CHR ''a'', 10), (CHR ''b'', 11), (CHR ''c'', 12), (CHR ''d'', 13), (CHR ''e'', 14), (CHR ''f'', 15),
      (CHR ''A'', 10), (CHR ''B'', 11), (CHR ''C'', 12), (CHR ''D'', 13), (CHR ''E'', 14), (CHR ''F'', 15)]"

definition digit_val :: "nat \<Rightarrow> char \<Rightarrow> nat option" where
  "digit_val radix c =
     (case map_of digit_table c of
        Some d \<Rightarrow> if d < radix then Some d else None
      | None \<Rightarrow> None)"

fun leading_digits :: "nat \<Rightarrow> string \<Rightarrow> nat list" where
  "leading_digits radix [] = []"
| "leading_digits radix (c # cs) =
     (case digit_val radix c of
        None \<Rightarrow> []
      | Some d \<Rightarrow> d # leading_digits radix cs)"

definition strip_sign :: "string \<Rightarrow> int \<times> string" where
  "strip_sign s =
     (case s of
        [] \<Rightarrow> (1, s)
      | c # r \<Rightarrow> if c = CHR ''-'' then (- 1, r) else if c = CHR ''+'' then (1, r) else (1, s))"

definition strip_radix :: "string \<Rightarrow> nat \<times> string" where
  "strip_radix s =
     (if take 2 s = ''0x'' \<or> take 2 s = ''0X'' then (16, drop 2 s) else (10, s))"

text \<open>
  \<open>parseInt(v)\<close> with no radix argument: the argument is converted to a string, leading
  white space and a sign are skipped, a \<open>0x\<close> prefix selects base 16, and the longest
  prefix of digits is read; no digit at all gives \<open>NaN\<close>. This definition is the built-in
  on ASCII input whose digits denote a value below \<open>2^53\<close>: it knows the six ASCII blanks
  only and does not round to the nearest floating-point number. The class update
  handler, whose stored result depends on the value, is therefore written over an
  arbitrary function in the place of the built-in (see \<open>put_class_with\<close>).
\<close>

definition parseInt :: "jsval \<Rightarrow> jsval" where
  "parseInt v =
     (let (sign, s1) = strip_sign (dropWhile is_space (to_string v));
          (radix, s2) = strip_radix s1;
          ds = leading_digits radix s2
      in if ds = [] then JNaN
         else JNum (sign * int (foldl (\<lambda>a d. a * radix + d) 0 ds)))"


definition lower_char :: "char \<Rightarrow> char" where
  "lower_char c =
     (case map_of (zip ''ABCDEFGHIJKLMNOPQRSTUVWXYZ'' ''abcdefghijklmnopqrstuvwxyz'') c of
        Some l \<Rightarrow> l
      | None \<Rightarrow> c)"

text \<open>
  \<open>v.toLowerCase()\<close>: only a string has the method; on any other truthy value the call
  throws a \<open>TypeError\<close> (\<open>None\<close>). Characters are bytes here, so only ASCII letters
  are folded.
\<close>

fun toLowerCase :: "jsval \<Rightarrow> string option" where
  "toLowerCase (JStr s) = Some (map lower_char s)"
| "toLowerCase v = None"

text \<open>\<open>a[0]\<close>: throws on \<open>null\<close> and \<open>undefined\<close> (\<open>None\<close>), \<open>undefined\<close> where there is no element.\<close>

fun index0 :: "jsval \<Rightarrow> jsval option" where
  "index0 JUndefined = None"
| "index0 JNull = None"
| "index0 (JArr (x # xs)) = Some x"
| "index0 v = Some JUndefined"

section \<open>The hosted store, as the handlers see it\<close>

text \<open>
  Every handler talks to the store through the Supabase query builder and reads back an
  object \<open>{ data, error }\<close>. The store is an external collaborator; the model below is
  an in-memory stand-in with three tables of row objects. It implements exactly the
  builder calls that \<^verbatim>\<open>server.js\<close> makes. Of the relational constraints it enforces
  the uniqueness of \<open>users.email\<close> and generated primary keys; column types, foreign
  keys and network failures are not modelled, so a write that the real store would
  reject for those reasons succeeds here.
\<close>

record db =
  users :: "obj list"
  classes :: "obj list"
  report :: "obj list"
  serial :: int
  clock :: int

record reply =
  data :: jsval
  error :: jsval

definition pg_error :: "string \<Rightarrow> jsval" where
  "pg_error m = JObj [(''message'', JStr m)]"

definition ok :: "jsval \<Rightarrow> reply" where
  "ok v = \<lparr>data = v, error = JNull\<rparr>"

definition failed :: "string \<Rightarrow> reply" where
  "failed m = \<lparr>data = JNull, error = pg_error m\<rparr>"

text \<open>
  A filter value travels as text and is cast to the column's type: a whole-string
  integer literal for a numeric column, the text itself for a text column.
\<close>

definition pg_int :: "string \<Rightarrow> int option" where
  "pg_int s =
     (let t = rev (dropWhile is_space (rev (dropWhile is_space s)));
          (sign, body) = strip_sign t
      in if body \<noteq> [] \<and> length (leading_digits 10 body) = length body
         then Some (sign * int (foldl (\<lambda>a d. a * 10 + d) 0 (leading_digits 10 body)))
         else None)"

fun db_eq :: "jsval \<Rightarrow> jsval \<Rightarrow> bool" where
  "db_eq (JNum n) (JNum m) = (n = m)"
| "db_eq (JNum n) v = (pg_int (to_string v) = Some n)"
| "db_eq (JStr s) v = (s = to_string v)"
| "db_eq (JBool b) v = (to_string (JBool b) = to_string v)"
| "db_eq stored v = False"

text \<open>\<open>.eq(col, v)\<close>\<close>

definition eq_filter :: "string \<Rightarrow> jsval \<Rightarrow> jsval list \<Rightarrow> jsval list" where
  "eq_filter col v rows = filter (\<lambda>r. db_eq (field r col) v) rows"

text \<open>\<open>.single()\<close>: exactly one row, or an error and no data.\<close>

definition single :: "jsval list \<Rightarrow> reply" where
  "single rows =
     (case rows of
        [r] \<Rightarrow> ok r
      | _ \<Rightarrow> failed ''JSON object requested, multiple (or no) rows returned'')"

text \<open>\<open>.maybeSingle()\<close>: no row is \<open>{ data: null, error: null }\<close>.\<close>

definition maybeSingle :: "jsval list \<Rightarrow> reply" where
  "maybeSingle rows =
     (case rows of
        [] \<Rightarrow> ok JNull
      | [r] \<Rightarrow> ok r
      | _ \<Rightarrow> failed ''JSON object requested, multiple (or no) rows returned'')"

text \<open>A column of a returned row: SQL \<open>NULL\<close> comes back as \<open>null\<close>.\<close>

definition column :: "jsval \<Rightarrow> string \<Rightarrow> jsval" where
  "column r c = (if field r c = JUndefined then JNull else field r c)"

text \<open>\<open>.select("a, b, c")\<close> on one row.\<close>

definition select_cols :: "string list \<Rightarrow> jsval \<Rightarrow> jsval" where
  "select_cols cols r = JObj (map (\<lambda>c. (c, column r c)) cols)"

text \<open>
  An embedded to-one resource, \<open>classes(...)\<close> or \<open>users!report_submitted_by_fkey(name)\<close>:
  the referenced row's columns, or \<open>null\<close> when the reference matches no row.
\<close>

definition embed_one :: "string list \<Rightarrow> string \<Rightarrow> jsval \<Rightarrow> obj list \<Rightarrow> jsval" where
  "embed_one cols key ref tbl =
     (case eq_filter key ref (map JObj tbl) of
        [] \<Rightarrow> JNull
      | r # _ \<Rightarrow> select_cols cols r)"

text \<open>
  The select list that all four report handlers use:
  \<^verbatim>\<open>*, classes(class_name, course_name, course_code, lecturer), users!report_submitted_by_fkey(name)\<close>
\<close>

definition report_embed :: "db \<Rightarrow> obj \<Rightarrow> jsval" where
  "report_embed d r =
     JObj (set_field ''users''
             (embed_one [''name''] ''user_id'' (field (JObj r) ''submitted_by'') (users d))
          (set_field ''classes''
             (embed_one [''class_name'', ''course_name'', ''course_code'', ''lecturer'']
                ''id'' (field (JObj r) ''class_id'') (classes d))
           r))"

definition report_select :: "db \<Rightarrow> jsval list" where
  "report_select d = map (report_embed d) (report d)"

text \<open>
  \<open>.order("created_at", { ascending: false })\<close>. The store stamps \<open>created_at\<close> with its
  clock, a number here; descending order puts rows without a stamp first.
\<close>

definition created_key :: "jsval \<Rightarrow> int" where
  "created_key r = (case field r ''created_at'' of JNum n \<Rightarrow> n | _ \<Rightarrow> 0)"

definition stamped :: "jsval \<Rightarrow> bool" where
  "stamped r = (case field r ''created_at'' of JNum n \<Rightarrow> True | _ \<Rightarrow> False)"

definition order_created_desc :: "jsval list \<Rightarrow> jsval list" where
  "order_created_desc rows =
     filter (\<lambda>r. \<not> stamped r) rows @ rev (sort_key created_key (filter stamped rows))"

text \<open>
  What \<open>JSON.stringify\<close> leaves of an object on its way to the store: a key whose value
  is \<open>undefined\<close> is dropped and \<open>NaN\<close> becomes \<open>null\<close>.
\<close>

definition wire :: "obj \<Rightarrow> obj" where
  "wire kvs =
     map (\<lambda>(k, v). (k, if v = JNaN then JNull else v))
       (filter (\<lambda>(k, v). v \<noteq> JUndefined) kvs)"

text \<open>
  The columns of an inserted row. \<open>JSON.stringify\<close> drops a key whose value is
  \<open>undefined\<close> and writes \<open>NaN\<close> as \<open>null\<close>; the store fills a column it was not given
  with \<open>NULL\<close>. Either way the row holds \<open>null\<close> there.
\<close>

definition inserted :: "obj \<Rightarrow> obj" where
  "inserted vals =
     map (\<lambda>(k, v). (k, if v = JUndefined \<or> v = JNaN then JNull else v)) vals"

text \<open>\<open>.from("users").insert([vals]).select()\<close>\<close>

definition insert_user :: "obj \<Rightarrow> db \<Rightarrow> reply \<times> db" where
  "insert_user vals d =
     (if eq_filter ''email'' (field (JObj vals) ''email'') (map JObj (users d)) \<noteq> []
      then (failed ''duplicate key value violates unique constraint'', d)
      else
        let row = (''user_id'', JNum (serial d)) # inserted vals @ [(''created_at'', JNum (clock d))]
        in (ok (JArr [JObj row]),
            d\<lparr>users := users d @ [row], serial := serial d + 1, clock := clock d + 1\<rparr>))"

text \<open>\<open>.from("report").insert([vals]).select(...)\<close> with the embedding select list.\<close>

definition insert_report :: "obj \<Rightarrow> db \<Rightarrow> reply \<times> db" where
  "insert_report vals d =
     (let row = (''report_id'', JNum (serial d)) # inserted vals @ [(''created_at'', JNum (clock d))];
          d' = d\<lparr>report := report d @ [row], serial := serial d + 1, clock := clock d + 1\<rparr>
      in (ok (JArr [report_embed d' row]), d'))"

text \<open>A patch applied to a row: each key of the patch replaces or adds that column.\<close>

definition patch_row :: "obj \<Rightarrow> obj \<Rightarrow> obj" where
  "patch_row patch r = foldr (\<lambda>(k, v). set_field k v) patch r"

text \<open>\<open>.from("classes").update(patch).eq("id", classId).select()\<close>\<close>

definition update_classes :: "obj \<Rightarrow> jsval \<Rightarrow> db \<Rightarrow> reply \<times> db" where
  "update_classes patch classId d =
     (let hit = (\<lambda>r. db_eq (field (JObj r) ''id'') classId);
          rows = map (\<lambda>r. if hit r then patch_row (wire patch) r else r) (classes d)
      in (ok (JArr (map (\<lambda>r. JObj (patch_row (wire patch) r)) (filter hit (classes d)))),
          d\<lparr>classes := rows\<rparr>))"

text \<open>\<open>.from("classes").delete().eq("id", classId)\<close>\<close>

definition delete_classes :: "jsval \<Rightarrow> db \<Rightarrow> reply \<times> db" where
  "delete_classes classId d =
     (ok JNull, d\<lparr>classes := filter (\<lambda>r. \<not> db_eq (field (JObj r) ''id'') classId) (classes d)\<rparr>)"


text \<open>Awaiting a query that asks for a list of rows; in this model it always answers.\<close>

definition await_rows :: "jsval list \<Rightarrow> reply" where
  "await_rows rows = ok (JArr rows)"

section \<open>The request handlers of \<^verbatim>\<open>server.js\<close>\<close>

text \<open>
  A handler takes what Express hands it (\<open>req.user\<close> as decoded by
  \<open>authenticateToken\<close>, \<open>req.params.id\<close>, \<open>req.body\<close> as a parsed JSON object) and the
  store, and returns the response it sends (status and the value given to \<open>res.json\<close>)
  together with the store afterwards. Each \<open>catch\<close> block is the definition named
  \<open>..._catch\<close>; every \<open>throw\<close> and every \<open>TypeError\<close> of the \<open>try\<close> block ends there.
\<close>

datatype response = Response (status: nat) (body: jsval)

definition err_body :: "string \<Rightarrow> jsval" where
  "err_body m = JObj [(''error'', JStr m)]"

subsection \<open>POST /register\<close>

definition allowedRoles :: "string list" where
  "allowedRoles = [''student'', ''lecturer'', ''prl'', ''pl'']"

definition register_catch :: response where
  "register_catch = Response 500 (err_body ''Registration failed'')"

text \<open>
  \<open>bcrypt.hash(password, 10)\<close> is the parameter \<open>bhash\<close>; it rejects anything but a
  string.
\<close>

definition register :: "(string \<Rightarrow> string) \<Rightarrow> obj \<Rightarrow> db \<Rightarrow> response \<times> db" where
  "register bhash reqbody d =
     (let name = field (JObj reqbody) ''name'';
          email = field (JObj reqbody) ''email'';
          password = field (JObj reqbody) ''password'';
          role = field (JObj reqbody) ''role''
      in if \<not> truthy name \<or> \<not> truthy email \<or> \<not> truthy password \<or> \<not> truthy role
         then (Response 400 (err_body ''All fields are required''), d)
         else case toLowerCase role of
           None \<Rightarrow> (register_catch, d)
         | Some lrole \<Rightarrow>
             if lrole \<notin> set allowedRoles
             then (Response 400 (err_body ''Invalid role selected''), d)
             else
               let existingUser =
                     data (maybeSingle (map (select_cols [''email''])
                             (eq_filter ''email'' email (map JObj (users d)))))
               in if truthy existingUser
                  then (Response 400 (err_body ''User already exists''), d)
                  else (case password of
                    JStr pw \<Rightarrow>
                      let (r, d') =
                            insert_user
                              [(''name'', name), (''email'', email),
                               (''password'', JStr (bhash pw)), (''role'', JStr lrole)] d
                      in if truthy (error r) then (register_catch, d')
                         else (case index0 (data r) of
                                 None \<Rightarrow> (register_catch, d')
                               | Some u \<Rightarrow>
                                   (Response 201
                                      (JObj [(''success'', JBool True),
                                             (''message'', JStr ''User registered''),
                                             (''user'', u)]), d'))
                  | _ \<Rightarrow> (register_catch, d)))"

subsection \<open>POST /login\<close>

definition login_catch :: response where
  "login_catch = Response 500 (err_body ''Login failed'')"

text \<open>
  \<open>bcrypt.compare\<close> is the parameter \<open>bcompare\<close> (it throws unless both arguments are
  strings) and \<open>jwt.sign\<close> with the server's secret and a 24 hour expiry is \<open>sign\<close>.
\<close>

definition login ::
  "(string \<Rightarrow> string \<Rightarrow> bool) \<Rightarrow> (jsval \<Rightarrow> string) \<Rightarrow> obj \<Rightarrow> db \<Rightarrow> response \<times> db" where
  "login bcompare sign reqbody d =
     (let email = field (JObj reqbody) ''email'';
          password = field (JObj reqbody) ''password''
      in if \<not> truthy email \<or> \<not> truthy password
         then (Response 400 (err_body ''Email and password required''), d)
         else
           let r = maybeSingle (eq_filter ''email'' email (map JObj (users d)));
               u = data r
           in if truthy (error r) \<or> \<not> truthy u
              then (Response 401 (err_body ''Invalid credentials''), d)
              else case (password, field u ''password'') of
                (JStr pw, JStr hash) \<Rightarrow>
                  if \<not> bcompare pw hash
                  then (Response 401 (err_body ''Invalid credentials''), d)
                  else
                    let token =
                          sign (JObj [(''id'', field u ''user_id''), (''role'', field u ''role''),
                                      (''name'', field u ''name''), (''email'', field u ''email'')])
                    in (Response 200
                          (JObj [(''success'', JBool True),
                                 (''message'', JStr ''Login successful''),
                                 (''token'', JStr token),
                                 (''user'',
                                    JObj [(''id'', field u ''user_id''), (''name'', field u ''name''),
                                          (''email'', field u ''email''), (''role'', field u ''role'')])]),
                        d)
              | _ \<Rightarrow> (login_catch, d))"

subsection \<open>PUT /classes/:id and DELETE /classes/:id\<close>

definition put_class_catch :: response where
  "put_class_catch = Response 500 (err_body ''Failed to update class'')"

text \<open>
  \<open>if (updates.capacity) updates.capacity = parseInt(updates.capacity)\<close>: the object that
  is then given to \<open>.update(updates)\<close>. The built-in \<open>parseInt\<close> is the argument \<open>parse\<close>.
\<close>

definition put_class_updates :: "(jsval \<Rightarrow> jsval) \<Rightarrow> obj \<Rightarrow> obj" where
  "put_class_updates parse updates =
     (if truthy (field (JObj updates) ''capacity'')
      then set_field ''capacity'' (parse (field (JObj updates) ''capacity'')) updates
      else updates)"

definition put_class_with ::
  "(jsval \<Rightarrow> jsval) \<Rightarrow> jsval \<Rightarrow> string \<Rightarrow> obj \<Rightarrow> db \<Rightarrow> response \<times> db" where
  "put_class_with parse user classId updates d =
     (let r = single (eq_filter ''id'' (JStr classId) (map JObj (classes d)));
          existingClass = data r
      in if truthy (error r) \<or> \<not> truthy existingClass
         then (Response 404 (err_body ''Class not found''), d)
         else if \<not> strict_eq (field user ''role'') (JStr ''pl'')
                 \<and> \<not> strict_eq (field existingClass ''created_by'') (field user ''name'')
         then (Response 403 (err_body ''Not authorized to edit this class''), d)
         else
           let (r2, d') = update_classes (put_class_updates parse updates) (JStr classId) d
           in if truthy (error r2) then (put_class_catch, d')
              else (case index0 (data r2) of
                      None \<Rightarrow> (put_class_catch, d')
                    | Some c \<Rightarrow>
                        (Response 200 (JObj [(''success'', JBool True), (''class'', c)]), d')))"

text \<open>The handler as it runs, with the built-in in place.\<close>

definition put_class :: "jsval \<Rightarrow> string \<Rightarrow> obj \<Rightarrow> db \<Rightarrow> response \<times> db" where
  "put_class = put_class_with parseInt"

definition delete_class_catch :: response where
  "delete_class_catch = Response 500 (err_body ''Failed to delete class'')"

definition delete_class :: "jsval \<Rightarrow> string \<Rightarrow> db \<Rightarrow> response \<times> db" where
  "delete_class user classId d =
     (let r = single (eq_filter ''id'' (JStr classId) (map JObj (classes d)));
          existingClass = data r
      in if truthy (error r) \<or> \<not> truthy existingClass
         then (Response 404 (err_body ''Class not found''), d)
         else if \<not> strict_eq (field user ''role'') (JStr ''pl'')
                 \<and> \<not> strict_eq (field existingClass ''created_by'') (field user ''name'')
         then (Response 403 (err_body ''Not authorized to delete this class''), d)
         else
           let (r2, d') = delete_classes (JStr classId) d
           in if truthy (error r2) then (delete_class_catch, d')
              else (Response 200
                      (JObj [(''success'', JBool True),
                             (''message'', JStr ''Class deleted successfully'')]), d'))"

subsection \<open>Report reshaping\<close>

text \<open>
  The object literal that the four report handlers build from a fetched row. The source
  writes it out four times, identical but for the \<open>feedback\<close> entry, which is the second
  argument here.
\<close>

definition reshape :: "jsval \<Rightarrow> jsval \<Rightarrow> obj" where
  "reshape row feedback =
     [(''id'', field row ''report_id''),
      (''faculty_name'', JStr ''Faculty of ICT''),
      (''class_name'', js_or (field (field row ''classes'') ''class_name'') (JStr ''Unknown Class'')),
      (''class_id'', field row ''class_id''),
      (''week_of_reporting'', JStr (''Week '' @ to_string (field row ''week''))),
      (''date_of_lecture'', field row ''date''),
      (''course_name'', js_or (field (field row ''classes'') ''course_name'') (JStr ''Unknown Course'')),
      (''course_code'', js_or (field (field row ''classes'') ''course_code'') (JStr ''N/A'')),
      (''lecturer_name'',
         js_or (field (field row ''classes'') ''lecturer'')
           (js_or (field (field row ''users'') ''name'') (JStr ''Unknown Lecturer''))),
      (''actual_students_present'', field row ''actual_students''),
      (''total_registered_students'', JNum 50),
      (''venue'', JStr ''Room 101''),
      (''scheduled_time'', JStr ''10:00''),
      (''topic_taught'', field row ''topic''),
      (''learning_outcomes'', field row ''learning_outcomes''),
      (''recommendations'', field row ''recommendations''),
      (''status'', JStr ''submitted''),
      (''feedback'', feedback),
      (''created_by'', field row ''submitted_by''),
      (''created_at'', field row ''created_at'')]"

subsection \<open>GET /reports\<close>

text \<open>The query as built: select with embedding, order, and the lecturer's filter.\<close>

definition reports_query :: "jsval \<Rightarrow> db \<Rightarrow> jsval list" where
  "reports_query user d =
     (let query = order_created_desc (report_select d)
      in if strict_eq (field user ''role'') (JStr ''lecturer'')
         then eq_filter ''submitted_by'' (field user ''id'') query
         else query)"

definition get_reports_catch :: "string \<Rightarrow> response" where
  "get_reports_catch m = Response 500 (err_body (''Failed to fetch reports: '' @ m))"

definition get_reports :: "jsval \<Rightarrow> db \<Rightarrow> response \<times> db" where
  "get_reports user d =
     (let r = await_rows (reports_query user d)
      in if truthy (error r)
         then (get_reports_catch (to_string (field (error r) ''message'')), d)
         else case data r of
           JArr rows \<Rightarrow>
             (Response 200
                (js_or (JArr (map (\<lambda>row. JObj (reshape row (JStr []))) rows)) (JArr [])), d)
         | _ \<Rightarrow> (get_reports_catch ''data.map is not a function'', d))"

subsection \<open>POST /reports\<close>

definition post_report_catch :: "string \<Rightarrow> response" where
  "post_report_catch m = Response 500 (err_body (''Failed to create report: '' @ m))"

definition post_report :: "jsval \<Rightarrow> obj \<Rightarrow> db \<Rightarrow> response \<times> db" where
  "post_report user reqbody d =
     (let class_id = field (JObj reqbody) ''class_id'';
          week = field (JObj reqbody) ''week'';
          date = field (JObj reqbody) ''date'';
          topic = field (JObj reqbody) ''topic'';
          learning_outcomes = field (JObj reqbody) ''learning_outcomes'';
          recommendations = field (JObj reqbody) ''recommendations'';
          actual_students = field (JObj reqbody) ''actual_students''
      in if \<not> truthy class_id \<or> \<not> truthy week \<or> \<not> truthy date \<or> \<not> truthy topic
            \<or> \<not> truthy actual_students
         then (Response 400
                 (err_body ''Class, week, date, topic, and actual students are required''), d)
         else
           let (r, d') =
                 insert_report
                   [(''class_id'', parseInt class_id),
                    (''week'', parseInt week),
                    (''date'', date),
                    (''topic'', topic),
                    (''learning_outcomes'', js_or learning_outcomes JNull),
                    (''recommendations'', js_or recommendations JNull),
                    (''actual_students'', parseInt actual_students),
                    (''submitted_by'', field user ''id'')] d
           in if truthy (error r)
              then (post_report_catch (to_string (field (error r) ''message'')), d')
              else if \<not> truthy (data r) \<or> data r = JArr []
              then (post_report_catch ''No data returned after insert'', d')
              else (case index0 (data r) of
                      Some (JObj row) \<Rightarrow>
                        (Response 201
                           (JObj [(''success'', JBool True),
                                  (''report'', JObj (reshape (JObj row) (JStr [])))]), d')
                    | _ \<Rightarrow> (post_report_catch ''Cannot read properties of undefined'', d')))"

subsection \<open>PUT /reports/:id\<close>

definition put_report_catch :: response where
  "put_report_catch = Response 500 (err_body ''Failed to update report'')"

definition put_report :: "jsval \<Rightarrow> string \<Rightarrow> obj \<Rightarrow> db \<Rightarrow> response \<times> db" where
  "put_report user reportId reqbody d =
     (let feedback = field (JObj reqbody) ''feedback''
      in if \<not> strict_eq (field user ''role'') (JStr ''prl'')
         then (Response 403 (err_body ''Not authorized to update reports''), d)
         else
           let r = single (eq_filter ''report_id'' (JStr reportId) (report_select d))
           in if truthy (error r) then (put_report_catch, d)
              else if \<not> truthy (data r) then (Response 404 (err_body ''Report not found''), d)
              else (Response 200
                      (JObj [(''success'', JBool True),
                             (''report'', JObj (reshape (data r) (js_or feedback (JStr []))))]),
                    d))"

subsection \<open>GET /reports/:id\<close>

definition get_report_catch :: response where
  "get_report_catch = Response 500 (err_body ''Failed to fetch report'')"

text \<open>
  After \<open>if (error) throw error\<close> the handler reads \<open>data.submitted_by\<close> (for a lecturer)
  and \<open>data.report_id\<close> with no test of \<open>data\<close>; on \<open>null\<close> either read throws.
\<close>

definition get_report :: "jsval \<Rightarrow> string \<Rightarrow> db \<Rightarrow> response \<times> db" where
  "get_report user reportId d =
     (let r = single (eq_filter ''report_id'' (JStr reportId) (report_select d))
      in if truthy (error r) then (get_report_catch, d)
         else if nullish (data r) then (get_report_catch, d)
         else if strict_eq (field user ''role'') (JStr ''lecturer'')
                 \<and> \<not> strict_eq (field (data r) ''submitted_by'') (field user ''id'')
         then (Response 403 (err_body ''Not authorized to view this report''), d)
         else (Response 200 (JObj (reshape (data r) (JStr []))), d))"


section \<open>Vocabulary of the properties\<close>

text \<open>The twenty keys of the public report schema, in the order the handlers write them.\<close>

definition output_schema :: "string list" where
  "output_schema =
     [''id'', ''faculty_name'', ''class_name'', ''class_id'', ''week_of_reporting'',
      ''date_of_lecture'', ''course_name'', ''course_code'', ''lecturer_name'',
      ''actual_students_present'', ''total_registered_students'', ''venue'',
      ''scheduled_time'', ''topic_taught'', ''learning_outcomes'', ''recommendations'',
      ''status'', ''feedback'', ''created_by'', ''created_at'']"

text \<open>The four placeholder entries of a reshaped report.\<close>

definition placeholders :: "jsval \<Rightarrow> bool" where
  "placeholders out =
     (field out ''total_registered_students'' = JNum 50
      \<and> field out ''venue'' = JStr ''Room 101''
      \<and> field out ''scheduled_time'' = JStr ''10:00''
      \<and> field out ''faculty_name'' = JStr ''Faculty of ICT'')"

text \<open>The elements of a response body that is an array.\<close>

fun elements :: "jsval \<Rightarrow> jsval list" where
  "elements (JArr xs) = xs"
| "elements v = []"

subsection \<open>A small store to run the handlers on\<close>

definition demo_class :: obj where
  "demo_class =
     [(''id'', JNum 10), (''class_name'', JStr ''CS101''), (''course_name'', JStr ''Intro''),
      (''course_code'', JStr ''CS''), (''lecturer'', JStr ''A''), (''schedule'', JNull),
      (''venue'', JNull), (''capacity'', JNull), (''status'', JStr ''active''),
      (''created_by'', JStr ''A''), (''created_at'', JNum 102)]"

definition demo_db :: db where
  "demo_db =
     \<lparr>users =
        [[(''user_id'', JNum 1), (''name'', JStr ''A''), (''email'', JStr ''a@x.com''),
          (''password'', JStr ''#p''), (''role'', JStr ''lecturer''), (''created_at'', JNum 100)],
         [(''user_id'', JNum 2), (''name'', JStr ''B''), (''email'', JStr ''b@x.com''),
          (''password'', JStr ''#q''), (''role'', JStr ''lecturer''), (''created_at'', JNum 101)]],
      classes = [demo_class],
      report =
        [[(''report_id'', JNum 20), (''class_id'', JNum 10), (''week'', JNum 1),
          (''date'', JStr ''2024-03-04''), (''topic'', JStr ''Recursion''),
          (''learning_outcomes'', JNull), (''recommendations'', JNull),
          (''actual_students'', JNum 31), (''submitted_by'', JNum 1),
          (''created_at'', JNum 103)],
         [(''report_id'', JNum 21), (''class_id'', JNull), (''week'', JNum 2),
          (''date'', JStr ''2024-03-11''), (''topic'', JStr ''Lists''),
          (''learning_outcomes'', JNull), (''recommendations'', JNull),
          (''actual_students'', JNum 28), (''submitted_by'', JNum 2),
          (''created_at'', JNum 104)]],
      serial = 22, clock = 105\<rparr>"

text \<open>A token payload as \<open>authenticateToken\<close> attaches it to the request.\<close>

definition demo_token :: "int \<Rightarrow> string \<Rightarrow> string \<Rightarrow> jsval" where
  "demo_token uid role name =
     JObj [(''id'', JNum uid), (''role'', JStr role), (''name'', JStr name)]"

text \<open>Stand-ins for the hashing and signing primitives.\<close>

definition demo_hash :: "string \<Rightarrow> string" where
  "demo_hash pw = CHR ''#'' # pw"

definition demo_compare :: "string \<Rightarrow> string \<Rightarrow> bool" where
  "demo_compare pw hash = (hash = demo_hash pw)"

definition demo_sign :: "jsval \<Rightarrow> string" where
  "demo_sign payload = ''token:'' @ to_string (field payload ''id'')"

definition demo_report_body :: obj where
  "demo_report_body =
     [(''class_id'', JStr ''10''), (''week'', JNum 3), (''date'', JStr ''2024-03-18''),
      (''topic'', JStr ''Maps''), (''actual_students'', JStr ''30'')]"

section \<open>Basic facts\<close>

lemma strict_eq_imp_eq: "strict_eq a b \<Longrightarrow> a = b"
  by (cases a) auto

lemma strict_eq_str [simp]: "strict_eq a (JStr s) = (a = JStr s)"
  by (cases a) auto

lemma field_nullish [simp]: "nullish v \<Longrightarrow> field v k = JUndefined"
  by (auto simp: nullish_def)

lemma field_set_field:
  "field (JObj (set_field k v r)) k' = (if k' = k then v else field (JObj r) k')"
  by (induction r) auto

lemma map_of_set_field: "map_of (set_field k v r) = (map_of r)(k \<mapsto> v)"
  by (induction r) auto

lemma error_ok [simp]: "error (ok v) = JNull"
  by (simp add: ok_def)

lemma data_ok [simp]: "data (ok v) = v"
  by (simp add: ok_def)

lemma error_failed [simp]: "truthy (error (failed m))"
  by (simp add: failed_def pg_error_def)

lemma data_failed [simp]: "data (failed m) = JNull"
  by (simp add: failed_def)

lemma single_one [simp]: "single [r] = ok r"
  by (simp add: single_def)

lemma single_none [simp]:
  "single [] = failed ''JSON object requested, multiple (or no) rows returned''"
  by (simp add: single_def)

lemma maybeSingle_none [simp]: "maybeSingle [] = ok JNull"
  by (simp add: maybeSingle_def)

lemma maybeSingle_one [simp]: "maybeSingle [r] = ok r"
  by (simp add: maybeSingle_def)

lemma select_cols_truthy [simp]: "truthy (select_cols cols r)"
  by (simp add: select_cols_def)

lemma eq_filter_map_JObj:
  "eq_filter col v (map JObj xs) = map JObj (filter (\<lambda>r. db_eq (field (JObj r) col) v) xs)"
  by (simp add: eq_filter_def filter_map comp_def)

lemma eq_filter_member: "eq_filter col v rows = [row] \<Longrightarrow> row \<in> set rows"
  by (metis eq_filter_def filter_is_subset list.set_intros(1) subsetD)

lemma mset_order_created_desc: "mset (order_created_desc rows) = mset rows"
  by (simp add: order_created_desc_def)

lemma report_select_obj: "row \<in> set (report_select d) \<Longrightarrow> \<exists>kvs. row = JObj kvs"
  by (auto simp: report_select_def report_embed_def)

lemma embed_one_missing:
  "eq_filter key ref (map JObj tbl) = [] \<Longrightarrow> embed_one cols key ref tbl = JNull"
  by (simp add: embed_one_def)

lemma report_embed_classes:
  "field (report_embed d r) ''classes''
     = embed_one [''class_name'', ''course_name'', ''course_code'', ''lecturer'']
         ''id'' (field (JObj r) ''class_id'') (classes d)"
  unfolding report_embed_def by (simp add: field_set_field del: field.simps)

lemma report_embed_users:
  "field (report_embed d r) ''users''
     = embed_one [''name''] ''user_id'' (field (JObj r) ''submitted_by'') (users d)"
  unfolding report_embed_def by (simp add: field_set_field del: field.simps)

lemma placeholders_reshape: "placeholders (JObj (reshape row fb))"
  by (simp add: placeholders_def reshape_def)

subsection \<open>Patches\<close>

lemma map_of_patch_row: "map_of (patch_row p r) = map_of r ++ map_of p"
proof (induction p)
  case Nil
  then show ?case by (simp add: patch_row_def)
next
  case (Cons a p)
  obtain k' v' where a: "a = (k', v')" by (cases a)
  have "patch_row (a # p) r = set_field k' v' (patch_row p r)"
    by (simp add: patch_row_def a)
  then show ?case using Cons by (simp add: map_of_set_field a fun_eq_iff map_add_def)
qed

lemma field_patch_row:
  "field (JObj (patch_row p r)) k
     = (case map_of p k of Some v \<Rightarrow> v | None \<Rightarrow> field (JObj r) k)"
  by (simp add: map_of_patch_row map_add_def split: option.splits)

lemma map_of_wire_Some:
  "map_of p k = Some v \<Longrightarrow> v \<noteq> JUndefined \<Longrightarrow>
   map_of (wire p) k = Some (if v = JNaN then JNull else v)"
  by (induction p) (auto simp: wire_def split: if_splits)

lemma map_of_wire_None: "map_of p k = None \<Longrightarrow> map_of (wire p) k = None"
  by (induction p) (auto simp: wire_def split: if_splits)

lemma put_class_updates_other:
  "k \<noteq> ''capacity'' \<Longrightarrow> map_of (put_class_updates parse updates) k = map_of updates k"
  by (simp add: put_class_updates_def map_of_set_field)

lemma set_field_keys: "map_of r k = Some w \<Longrightarrow> map fst (set_field k v r) = map fst r"
  by (induction r) (auto split: if_splits)

lemma put_class_updates_keys: "map fst (put_class_updates parse updates) = map fst updates"
proof (cases "truthy (field (JObj updates) ''capacity'')")
  case True
  then obtain w where "map_of updates ''capacity'' = Some w"
    by (cases "map_of updates ''capacity''") auto
  then show ?thesis
    using True by (simp add: put_class_updates_def set_field_keys del: field.simps)
next
  case False
  then show ?thesis by (simp add: put_class_updates_def del: field.simps)
qed

lemma put_class_updates_field:
  "field (JObj (put_class_updates parse updates)) k
     = (if k = ''capacity'' \<and> truthy (field (JObj updates) ''capacity'')
        then parse (field (JObj updates) ''capacity'')
        else field (JObj updates) k)"
  by (simp add: put_class_updates_def field_set_field del: field.simps)

lemma put_class_updates_capacity:
  "truthy (field (JObj updates) ''capacity'') \<Longrightarrow>
   map_of (put_class_updates parse updates) ''capacity''
     = Some (parse (field (JObj updates) ''capacity''))"
  by (simp add: put_class_updates_def map_of_set_field del: field.simps)

text \<open>
  An update whose patch does not name \<open>id\<close> rewrites the one row it matches and leaves
  it the one row with that id.
\<close>

lemma update_classes_keeps_id:
  assumes exist: "eq_filter ''id'' v (map JObj (classes d)) = [JObj c]"
    and noid: "map_of patch ''id'' = None"
  shows "update_classes patch v d
           = (ok (JArr [JObj (patch_row (wire patch) c)]),
              d\<lparr>classes := map (\<lambda>r. if db_eq (field (JObj r) ''id'') v
                                      then patch_row (wire patch) r else r) (classes d)\<rparr>)"
    and "eq_filter ''id'' v (map JObj (classes (snd (update_classes patch v d))))
           = [JObj (patch_row (wire patch) c)]"
proof -
  let ?hit = "\<lambda>r. db_eq (field (JObj r) ''id'') v"
  let ?g = "\<lambda>r. if ?hit r then patch_row (wire patch) r else r"
  from exist have f: "filter ?hit (classes d) = [c]"
    by (simp add: eq_filter_map_JObj map_eq_Cons_conv del: field.simps)
  show u: "update_classes patch v d
           = (ok (JArr [JObj (patch_row (wire patch) c)]), d\<lparr>classes := map ?g (classes d)\<rparr>)"
    by (simp add: update_classes_def Let_def f del: field.simps)
  have keep: "\<And>r. ?hit (?g r) = ?hit r"
    by (simp add: field_patch_row map_of_wire_None [OF noid] del: field.simps)
  have "filter ?hit (map ?g (classes d)) = map ?g (filter ?hit (classes d))"
    by (induction "classes d" arbitrary: d)
       (simp_all add: filter_map comp_def keep del: field.simps)
  then have g: "filter ?hit (map ?g (classes d)) = [?g c]"
    by (simp only: f list.map)
  have "c \<in> set (filter ?hit (classes d))"
    by (simp only: f list.set_intros)
  then have hc: "?hit c"
    by (simp only: set_filter mem_Collect_eq)
  have "eq_filter ''id'' v (map JObj (map ?g (classes d)))
          = map JObj (filter ?hit (map ?g (classes d)))"
    by (rule eq_filter_map_JObj)
  also have "\<dots> = [JObj (patch_row (wire patch) c)]"
    using hc by (simp only: g list.map if_True)
  finally show "eq_filter ''id'' v (map JObj (classes (snd (update_classes patch v d))))
           = [JObj (patch_row (wire patch) c)]"
    by (simp add: u del: field.simps)
qed

subsection \<open>What each handler answers\<close>

lemma get_reports_response:
  "get_reports user d =
     (Response 200 (JArr (map (\<lambda>row. JObj (reshape row (JStr []))) (reports_query user d))), d)"
  by (simp add: get_reports_def await_rows_def js_or_def)

lemma insert_report_reply: "\<exists>kvs d'. insert_report vals d = (ok (JArr [JObj kvs]), d')"
  unfolding insert_report_def report_embed_def Let_def by blast

lemma post_report_201:
  assumes "status (fst (post_report user reqbody d)) = 201"
  shows "\<exists>row. body (fst (post_report user reqbody d))
           = JObj [(''success'', JBool True), (''report'', JObj (reshape row (JStr [])))]"
proof -
  let ?vals = "[(''class_id'', parseInt (field (JObj reqbody) ''class_id'')),
                (''week'', parseInt (field (JObj reqbody) ''week'')),
                (''date'', field (JObj reqbody) ''date''),
                (''topic'', field (JObj reqbody) ''topic''),
                (''learning_outcomes'', js_or (field (JObj reqbody) ''learning_outcomes'') JNull),
                (''recommendations'', js_or (field (JObj reqbody) ''recommendations'') JNull),
                (''actual_students'', parseInt (field (JObj reqbody) ''actual_students'')),
                (''submitted_by'', field user ''id'')]"
  obtain kvs d2 where ins: "insert_report ?vals d = (ok (JArr [JObj kvs]), d2)"
    using insert_report_reply by blast
  show ?thesis
    using assms ins
    by (auto simp add: post_report_def Let_def split: if_splits)
qed

lemma get_report_200:
  "status (fst (get_report user reportId d)) = 200 \<Longrightarrow>
   \<exists>row. body (fst (get_report user reportId d)) = JObj (reshape row (JStr []))"
  by (auto simp add: get_report_def Let_def get_report_catch_def split: if_splits)

lemma get_report_forbidden:
  assumes "eq_filter ''report_id'' (JStr reportId) (report_select d) = [row]"
    and "field user ''role'' = JStr ''lecturer''"
    and "field row ''submitted_by'' \<noteq> field user ''id''"
  shows "get_report user reportId d
           = (Response 403 (err_body ''Not authorized to view this report''), d)"
proof -
  have "row \<in> set (report_select d)"
    using assms(1) by (rule eq_filter_member)
  then obtain kvs where "row = JObj kvs" using report_select_obj by blast
  moreover have "\<not> strict_eq (field row ''submitted_by'') (field user ''id'')"
    using assms(3) strict_eq_imp_eq by blast
  ultimately show ?thesis using assms(1,2)
    by (simp add: get_report_def nullish_def)
qed

lemma put_class_403_iff:
  assumes "eq_filter ''id'' (JStr classId) (map JObj (classes d)) = [JObj c]"
    and "field user ''role'' \<noteq> JStr ''pl''"
  shows "status (fst (put_class_with parse user classId updates d)) = 403
           \<longleftrightarrow> \<not> strict_eq (field (JObj c) ''created_by'') (field user ''name'')"
  using assms
  by (simp add: put_class_with_def put_class_catch_def split_beta split: option.splits
           del: field.simps)

lemma delete_class_403_iff:
  assumes "eq_filter ''id'' (JStr classId) (map JObj (classes d)) = [JObj c]"
    and "field user ''role'' \<noteq> JStr ''pl''"
  shows "status (fst (delete_class user classId d)) = 403
           \<longleftrightarrow> \<not> strict_eq (field (JObj c) ''created_by'') (field user ''name'')"
  using assms
  by (simp add: delete_class_def delete_class_catch_def delete_classes_def del: field.simps)


section \<open>Report list: the lecturer filter\<close>

text \<open>
  Claim C1. \<open>GET /reports\<close> answers 200 with the reshaped rows of its query. For a
  caller whose role is \<open>lecturer\<close> the query holds exactly the stored reports whose
  \<open>submitted_by\<close> the store finds equal to the caller's id (so every returned row, and
  the \<open>created_by\<close> entry reshaped from it, carries that id); for a caller with any
  other role no filter is applied and every stored report is returned once.
\<close>

theorem get_reports_role_filter:
  "get_reports user d =
     (Response 200 (JArr (map (\<lambda>row. JObj (reshape row (JStr []))) (reports_query user d))), d)
   \<and> (field user ''role'' = JStr ''lecturer'' \<longrightarrow>
        mset (reports_query user d)
          = filter_mset (\<lambda>row. db_eq (field row ''submitted_by'') (field user ''id''))
              (mset (report_select d))
        \<and> (\<forall>row \<in> set (reports_query user d).
              db_eq (field row ''submitted_by'') (field user ''id'')
              \<and> db_eq (field (JObj (reshape row (JStr []))) ''created_by'') (field user ''id'')))
   \<and> (field user ''role'' \<noteq> JStr ''lecturer'' \<longrightarrow>
        mset (reports_query user d) = mset (report_select d))"
proof (intro conjI impI)
  show "get_reports user d =
     (Response 200 (JArr (map (\<lambda>row. JObj (reshape row (JStr []))) (reports_query user d))), d)"
    by (rule get_reports_response)
next
  assume lect: "field user ''role'' = JStr ''lecturer''"
  then have q: "reports_query user d =
      eq_filter ''submitted_by'' (field user ''id'') (order_created_desc (report_select d))"
    by (simp add: reports_query_def)
  show "mset (reports_query user d)
          = filter_mset (\<lambda>row. db_eq (field row ''submitted_by'') (field user ''id''))
              (mset (report_select d))"
    by (simp add: q eq_filter_def mset_order_created_desc)
  show "\<forall>row \<in> set (reports_query user d).
              db_eq (field row ''submitted_by'') (field user ''id'')
              \<and> db_eq (field (JObj (reshape row (JStr []))) ''created_by'') (field user ''id'')"
    by (simp add: q eq_filter_def reshape_def)
next
  assume "field user ''role'' \<noteq> JStr ''lecturer''"
  then show "mset (reports_query user d) = mset (report_select d)"
    by (simp add: reports_query_def mset_order_created_desc)
qed

theorem get_reports_role_filter_witness:
  "field (demo_token 1 ''lecturer'' ''A'') ''role'' = JStr ''lecturer''
   \<and> map (\<lambda>row. field row ''report_id'') (reports_query (demo_token 1 ''lecturer'' ''A'') demo_db)
       = [JNum 20]
   \<and> list_all (\<lambda>row. db_eq (field row ''submitted_by'') (JNum 1))
         (reports_query (demo_token 1 ''lecturer'' ''A'') demo_db)
   \<and> field (demo_token 3 ''pl'' ''P'') ''role'' \<noteq> JStr ''lecturer''
   \<and> mset (reports_query (demo_token 3 ''pl'' ''P'') demo_db) = mset (report_select demo_db)"
proof -
  have l: "field (demo_token 1 ''lecturer'' ''A'') ''role'' = JStr ''lecturer''"
    by (simp add: demo_token_def)
  have i: "field (demo_token 1 ''lecturer'' ''A'') ''id'' = JNum 1"
    by (simp add: demo_token_def)
  have p: "field (demo_token 3 ''pl'' ''P'') ''role'' \<noteq> JStr ''lecturer''"
    by (simp add: demo_token_def)
  have ids: "map (\<lambda>row. field row ''report_id'')
               (reports_query (demo_token 1 ''lecturer'' ''A'') demo_db) = [JNum 20]"
    by code_simp
  have own: "\<forall>row \<in> set (reports_query (demo_token 1 ''lecturer'' ''A'') demo_db).
         db_eq (field row ''submitted_by'') (JNum 1)"
    using get_reports_role_filter [of "demo_token 1 ''lecturer'' ''A''" demo_db] l
    by (simp only: i) blast
  have all: "mset (reports_query (demo_token 3 ''pl'' ''P'') demo_db) = mset (report_select demo_db)"
    using get_reports_role_filter [of "demo_token 3 ''pl'' ''P''" demo_db] p by blast
  have own': "list_all (\<lambda>row. db_eq (field row ''submitted_by'') (JNum 1))
         (reports_query (demo_token 1 ''lecturer'' ''A'') demo_db)"
    using own by (simp only: list_all_iff)
  show ?thesis using l ids own' p all by blast
qed

section \<open>Single report: absent id\<close>

text \<open>
  Claim C2. \<open>GET /reports/:id\<close> should answer 404 when no report has the id. The handler
  has no such branch: \<open>.single()\<close> reports the missing row as an error, the handler
  throws it, and the \<open>catch\<close> block answers 500 with "Failed to fetch report" for every
  caller. (The 403 half of the claim holds, see \<open>get_report_forbidden\<close>.)
\<close>

theorem get_report_absent_is_500:
  "eq_filter ''report_id'' (JStr reportId) (report_select d) = [] \<Longrightarrow>
   get_report user reportId d = (Response 500 (err_body ''Failed to fetch report''), d)"
  by (simp add: get_report_def get_report_catch_def)

theorem get_report_absent_is_500_witness:
  "eq_filter ''report_id'' (JStr ''99'') (report_select demo_db) = []
   \<and> get_report (demo_token 3 ''pl'' ''P'') ''99'' demo_db
       = (Response 500 (err_body ''Failed to fetch report''), demo_db)
   \<and> status (fst (get_report (demo_token 3 ''pl'' ''P'') ''99'' demo_db)) \<noteq> 404"
proof -
  have h: "eq_filter ''report_id'' (JStr ''99'') (report_select demo_db) = []"
    by code_simp
  show ?thesis
    using h get_report_absent_is_500 [OF h, of "demo_token 3 ''pl'' ''P''"] by simp
qed

section \<open>Class update and delete: the ownership gate\<close>

text \<open>
  Claim C3. For an existing class and a caller whose role is not \<open>pl\<close> and whose name
  differs from the class's \<open>created_by\<close>, \<open>PUT /classes/:id\<close> and \<open>DELETE /classes/:id\<close>
  both answer 403 and leave the store as it was.
\<close>

theorem class_write_forbidden:
  assumes "eq_filter ''id'' (JStr classId) (map JObj (classes d)) = [JObj c]"
    and "field user ''role'' \<noteq> JStr ''pl''"
    and "field (JObj c) ''created_by'' \<noteq> field user ''name''"
  shows "put_class user classId updates d
           = (Response 403 (err_body ''Not authorized to edit this class''), d)
         \<and> delete_class user classId d
           = (Response 403 (err_body ''Not authorized to delete this class''), d)"
proof -
  from assms(3) have "\<not> strict_eq (field (JObj c) ''created_by'') (field user ''name'')"
    using strict_eq_imp_eq by blast
  with assms(1,2) show ?thesis
    by (simp add: put_class_def put_class_with_def delete_class_def)
qed

theorem class_write_forbidden_witness:
  "put_class (demo_token 2 ''lecturer'' ''B'') ''10'' [(''class_name'', JStr ''X'')] demo_db
     = (Response 403 (err_body ''Not authorized to edit this class''), demo_db)
   \<and> delete_class (demo_token 2 ''lecturer'' ''B'') ''10'' demo_db
     = (Response 403 (err_body ''Not authorized to delete this class''), demo_db)"
proof -
  have 1: "eq_filter ''id'' (JStr ''10'') (map JObj (classes demo_db)) = [JObj demo_class]"
    by code_simp
  have 2: "field (demo_token 2 ''lecturer'' ''B'') ''role'' \<noteq> JStr ''pl''"
    by code_simp
  have 3: "field (JObj demo_class) ''created_by'' \<noteq> field (demo_token 2 ''lecturer'' ''B'') ''name''"
    by code_simp
  show ?thesis using class_write_forbidden [OF 1 2 3] by simp
qed

section \<open>Feedback update: nothing is stored\<close>

text \<open>
  Claim C4, as amended. For a caller whose role is \<open>prl\<close> and an existing report,
  \<open>PUT /reports/:id\<close> leaves the store as it was and answers 200 with the reshaped
  fetched report whose \<open>feedback\<close> entry is the supplied value when that value is
  truthy and the empty string otherwise (absent, \<open>null\<close>, \<open>false\<close>, \<open>0\<close> or \<open>""\<close>); the
  payload differs from the plain reshaping in that one entry only.
\<close>

theorem put_report_ephemeral:
  assumes "field user ''role'' = JStr ''prl''"
    and "eq_filter ''report_id'' (JStr reportId) (report_select d) = [row]"
  shows "put_report user reportId reqbody d =
           (Response 200
              (JObj [(''success'', JBool True),
                     (''report'',
                        JObj (reshape row
                                (if truthy (field (JObj reqbody) ''feedback'')
                                 then field (JObj reqbody) ''feedback'' else JStr [])))]), d)
         \<and> (\<forall>v. reshape row v = set_field ''feedback'' v (reshape row (JStr [])))"
proof -
  have "row \<in> set (report_select d)"
    using assms(2) by (rule eq_filter_member)
  then obtain kvs where "row = JObj kvs" using report_select_obj by blast
  then have a: "put_report user reportId reqbody d =
           (Response 200
              (JObj [(''success'', JBool True),
                     (''report'',
                        JObj (reshape row
                                (if truthy (field (JObj reqbody) ''feedback'')
                                 then field (JObj reqbody) ''feedback'' else JStr [])))]), d)"
    using assms by (simp add: put_report_def js_or_def)
  have b: "\<forall>v. reshape row v = set_field ''feedback'' v (reshape row (JStr []))"
    by (simp add: reshape_def)
  show ?thesis by (rule conjI [OF a b])
qed

theorem put_report_ephemeral_witness:
  "snd (put_report (demo_token 4 ''prl'' ''R'') ''20'' [(''feedback'', JStr ''Good'')] demo_db)
     = demo_db
   \<and> status (fst (put_report (demo_token 4 ''prl'' ''R'') ''20''
                     [(''feedback'', JStr ''Good'')] demo_db)) = 200
   \<and> field (field (body (fst (put_report (demo_token 4 ''prl'' ''R'') ''20''
                                 [(''feedback'', JStr ''Good'')] demo_db))) ''report'') ''feedback''
       = JStr ''Good''"
proof -
  have r: "field (demo_token 4 ''prl'' ''R'') ''role'' = JStr ''prl''"
    by (simp add: demo_token_def)
  have e: "eq_filter ''report_id'' (JStr ''20'') (report_select demo_db)
             = [report_embed demo_db (report demo_db ! 0)]"
    by code_simp
  show ?thesis
    using put_report_ephemeral [OF r e, of "[(''feedback'', JStr ''Good'')]", THEN conjunct1]
    by (simp add: reshape_def)
qed

text \<open>
  As stated, with "set to the supplied feedback value", the claim fails for a supplied
  value that is falsy but not the empty string: feedback \<open>0\<close> comes back as \<open>""\<close>.
\<close>

theorem put_report_feedback_counterexample:
  "field (field (body (fst (put_report (demo_token 4 ''prl'' ''R'') ''20''
                            [(''feedback'', JNum 0)] demo_db))) ''report'') ''feedback''
     \<noteq> field (JObj [(''feedback'', JNum 0)]) ''feedback''"
  by code_simp

section \<open>Report reshaping\<close>

text \<open>
  Claim C5. Reshaping never fails and always yields the twenty keys of the output schema.
  When the class join is \<open>null\<close> the class name, course name and course code are the
  fallback labels; when the submitter join is \<open>null\<close> as well the lecturer name is
  "Unknown Lecturer". A stored report that references no class and no user is joined
  with \<open>null\<close> twice and so gets all four labels.
\<close>

theorem reshape_total:
  "map fst (reshape row fb) = output_schema
   \<and> (nullish (field row ''classes'') \<longrightarrow>
        field (JObj (reshape row fb)) ''class_name'' = JStr ''Unknown Class''
        \<and> field (JObj (reshape row fb)) ''course_name'' = JStr ''Unknown Course''
        \<and> field (JObj (reshape row fb)) ''course_code'' = JStr ''N/A'')
   \<and> (nullish (field row ''classes'') \<and> nullish (field row ''users'') \<longrightarrow>
        field (JObj (reshape row fb)) ''lecturer_name'' = JStr ''Unknown Lecturer'')
   \<and> (eq_filter ''id'' (field (JObj r) ''class_id'') (map JObj (classes d)) = []
        \<and> eq_filter ''user_id'' (field (JObj r) ''submitted_by'') (map JObj (users d)) = []
        \<longrightarrow> nullish (field (report_embed d r) ''classes'')
            \<and> nullish (field (report_embed d r) ''users''))"
proof (intro conjI impI)
  show "map fst (reshape row fb) = output_schema"
    by (simp add: reshape_def output_schema_def)
next
  assume "nullish (field row ''classes'')"
  then show "field (JObj (reshape row fb)) ''class_name'' = JStr ''Unknown Class''"
    and "field (JObj (reshape row fb)) ''course_name'' = JStr ''Unknown Course''"
    and "field (JObj (reshape row fb)) ''course_code'' = JStr ''N/A''"
    by (simp_all add: reshape_def js_or_def)
next
  assume "nullish (field row ''classes'') \<and> nullish (field row ''users'')"
  then show "field (JObj (reshape row fb)) ''lecturer_name'' = JStr ''Unknown Lecturer''"
    by (simp add: reshape_def js_or_def)
next
  assume a: "eq_filter ''id'' (field (JObj r) ''class_id'') (map JObj (classes d)) = []
        \<and> eq_filter ''user_id'' (field (JObj r) ''submitted_by'') (map JObj (users d)) = []"
  show "nullish (field (report_embed d r) ''classes'')"
    using a by (simp only: report_embed_classes embed_one_missing nullish_def simp_thms)
  show "nullish (field (report_embed d r) ''users'')"
    using a by (simp only: report_embed_users embed_one_missing nullish_def simp_thms)
qed

theorem reshape_total_witness:
  "nullish (field (JObj [(''report_id'', JNum 7), (''classes'', JNull), (''users'', JNull)])
              ''classes'')
   \<and> map (field (JObj (reshape
                          (JObj [(''report_id'', JNum 7), (''classes'', JNull), (''users'', JNull)])
                          (JStr []))))
         [''class_name'', ''course_name'', ''course_code'', ''lecturer_name'']
       = [JStr ''Unknown Class'', JStr ''Unknown Course'', JStr ''N/A'', JStr ''Unknown Lecturer'']"
proof -
  let ?row = "JObj [(''report_id'', JNum 7), (''classes'', JNull), (''users'', JNull)]"
  have c: "nullish (field ?row ''classes'')" by (simp add: nullish_def)
  have u: "nullish (field ?row ''users'')" by (simp add: nullish_def)
  show ?thesis
    using c u reshape_total [of ?row "JStr []"] by (simp del: field.simps)
qed

section \<open>Registration with a used email\<close>

text \<open>
  Claim C6, as amended. A registration request whose email is already in the users table
  never inserts a user row. If the request also passes the field and role checks (name,
  email, password and role all truthy, role a string that lower-cases to an allowed
  role) and the email is held by exactly one row, as the store's uniqueness constraint
  guarantees, the answer is status 400 with "User already exists".
\<close>

theorem register_existing_email:
  assumes "eq_filter ''email'' (field (JObj reqbody) ''email'') (map JObj (users d)) \<noteq> []"
  shows "snd (register bhash reqbody d) = d
         \<and> (truthy (field (JObj reqbody) ''name'') \<and> truthy (field (JObj reqbody) ''email'')
            \<and> truthy (field (JObj reqbody) ''password'') \<and> truthy (field (JObj reqbody) ''role'')
            \<and> toLowerCase (field (JObj reqbody) ''role'') = Some lrole \<and> lrole \<in> set allowedRoles
            \<and> length (eq_filter ''email'' (field (JObj reqbody) ''email'') (map JObj (users d))) = 1
            \<longrightarrow> fst (register bhash reqbody d) = Response 400 (err_body ''User already exists''))"
proof (intro conjI impI)
  show "snd (register bhash reqbody d) = d"
    using assms
    by (simp add: register_def Let_def insert_user_def split: option.splits jsval.splits)
next
  assume v: "truthy (field (JObj reqbody) ''name'') \<and> truthy (field (JObj reqbody) ''email'')
            \<and> truthy (field (JObj reqbody) ''password'') \<and> truthy (field (JObj reqbody) ''role'')
            \<and> toLowerCase (field (JObj reqbody) ''role'') = Some lrole \<and> lrole \<in> set allowedRoles
            \<and> length (eq_filter ''email'' (field (JObj reqbody) ''email'') (map JObj (users d))) = 1"
  then obtain u where
    "eq_filter ''email'' (field (JObj reqbody) ''email'') (map JObj (users d)) = [u]"
    by (auto simp: length_Suc_conv)
  with v show "fst (register bhash reqbody d) = Response 400 (err_body ''User already exists'')"
    by (simp add: register_def Let_def)
qed

theorem register_existing_email_witness:
  "register demo_hash
     [(''name'', JStr ''A2''), (''email'', JStr ''a@x.com''), (''password'', JStr ''pw''),
      (''role'', JStr ''Lecturer'')] demo_db
   = (Response 400 (err_body ''User already exists''), demo_db)"
proof -
  let ?b = "[(''name'', JStr ''A2''), (''email'', JStr ''a@x.com''), (''password'', JStr ''pw''),
             (''role'', JStr ''Lecturer'')]"
  have e: "eq_filter ''email'' (field (JObj ?b) ''email'') (map JObj (users demo_db)) \<noteq> []"
    by code_simp
  have v: "truthy (field (JObj ?b) ''name'') \<and> truthy (field (JObj ?b) ''email'')
            \<and> truthy (field (JObj ?b) ''password'') \<and> truthy (field (JObj ?b) ''role'')
            \<and> toLowerCase (field (JObj ?b) ''role'') = Some ''lecturer''
            \<and> ''lecturer'' \<in> set allowedRoles
            \<and> length (eq_filter ''email'' (field (JObj ?b) ''email'') (map JObj (users demo_db))) = 1"
    by code_simp
  have "snd (register demo_hash ?b demo_db) = demo_db
        \<and> fst (register demo_hash ?b demo_db) = Response 400 (err_body ''User already exists'')"
    using register_existing_email [OF e, of demo_hash "''lecturer''"] v by blast
  then show ?thesis by (metis prod.collapse)
qed

text \<open>
  As stated, for every request with a used email, the claim fails: a role that is a
  number passes the presence check, \<open>role.toLowerCase()\<close> throws, and the answer is 500.
\<close>

theorem register_existing_email_counterexample:
  "eq_filter ''email'' (JStr ''a@x.com'') (map JObj (users demo_db)) \<noteq> []
   \<and> fst (register demo_hash
            [(''name'', JStr ''A''), (''email'', JStr ''a@x.com''), (''password'', JStr ''p''),
             (''role'', JNum 5)] demo_db)
       = Response 500 (err_body ''Registration failed'')"
  by code_simp


section \<open>Login: what a failure reveals\<close>

text \<open>
  With a password that is a string, the two ways a login can fail are answered alike:
  status 401 and "Invalid credentials", whether the email is unknown or the password
  does not match the stored hash.
\<close>

lemma login_string_failures_alike:
  assumes "truthy (field (JObj body1) ''email'')" and "truthy (field (JObj body1) ''password'')"
    and "eq_filter ''email'' (field (JObj body1) ''email'') (map JObj (users d1)) = []"
    and "truthy (field (JObj body2) ''email'')" and "field (JObj body2) ''password'' = JStr pw"
    and "pw \<noteq> []"
    and "eq_filter ''email'' (field (JObj body2) ''email'') (map JObj (users d2)) = [JObj u]"
    and "field (JObj u) ''password'' = JStr hash"
    and "\<not> bcompare pw hash"
  shows "fst (login bcompare sign body1 d1) = Response 401 (err_body ''Invalid credentials'')
         \<and> fst (login bcompare sign body2 d2) = fst (login bcompare sign body1 d1)"
proof -
  have a: "fst (login bcompare sign body1 d1) = Response 401 (err_body ''Invalid credentials'')"
    using assms(1-3) by (simp add: login_def)
  have b: "fst (login bcompare sign body2 d2) = Response 401 (err_body ''Invalid credentials'')"
    using assms(4-9) by (simp add: login_def)
  show ?thesis using a b by simp
qed

text \<open>
  Claim C7. A failing login should not reveal whether the email exists. The handler
  tests the password for presence only, not for being a string. Sent the same truthy
  password that is not a string (a number, \<open>true\<close>, an array, an object), it answers 401
  "Invalid credentials" for an email that matches no user, but for an email that
  matches a user \<open>bcrypt.compare\<close> throws on the password and the \<open>catch\<close> block answers
  500 "Login failed". The two responses differ, so they tell a known email from an
  unknown one.
\<close>

theorem login_nonstring_password_reveals_email:
  assumes "truthy (field (JObj body1) ''email'')" and "truthy (field (JObj body2) ''email'')"
    and "field (JObj body1) ''password'' = p" and "field (JObj body2) ''password'' = p"
    and "truthy p" and "\<And>s. p \<noteq> JStr s"
    and "eq_filter ''email'' (field (JObj body1) ''email'') (map JObj (users d)) = []"
    and "eq_filter ''email'' (field (JObj body2) ''email'') (map JObj (users d)) = [JObj u]"
  shows "login bcompare sign body1 d = (Response 401 (err_body ''Invalid credentials''), d)
         \<and> login bcompare sign body2 d = (Response 500 (err_body ''Login failed''), d)"
proof -
  have a: "login bcompare sign body1 d = (Response 401 (err_body ''Invalid credentials''), d)"
    using assms(1,3,5,7) by (simp add: login_def)
  have b: "login bcompare sign body2 d = (Response 500 (err_body ''Login failed''), d)"
    using assms(2,4,5,8) assms(6)
    by (cases p) (auto simp add: login_def login_catch_def)
  show ?thesis by (rule conjI [OF a b])
qed

theorem login_nonstring_password_reveals_email_witness:
  "login demo_compare demo_sign
     [(''email'', JStr ''nobody@x.com''), (''password'', JNum 12345)] demo_db
   = (Response 401 (err_body ''Invalid credentials''), demo_db)
   \<and> login demo_compare demo_sign
       [(''email'', JStr ''a@x.com''), (''password'', JNum 12345)] demo_db
     = (Response 500 (err_body ''Login failed''), demo_db)"
proof -
  let ?b1 = "[(''email'', JStr ''nobody@x.com''), (''password'', JNum 12345)]"
  let ?b2 = "[(''email'', JStr ''a@x.com''), (''password'', JNum 12345)]"
  have 1: "truthy (field (JObj ?b1) ''email'')" by simp
  have 2: "truthy (field (JObj ?b2) ''email'')" by simp
  have 3: "field (JObj ?b1) ''password'' = JNum 12345" by simp
  have 4: "field (JObj ?b2) ''password'' = JNum 12345" by simp
  have 5: "truthy (JNum 12345)" by simp
  have 6: "\<And>s. JNum 12345 \<noteq> JStr s" by simp
  have 7: "eq_filter ''email'' (field (JObj ?b1) ''email'') (map JObj (users demo_db)) = []"
    by code_simp
  have 8: "eq_filter ''email'' (field (JObj ?b2) ''email'') (map JObj (users demo_db))
             = [JObj (hd (users demo_db))]"
    by code_simp
  show ?thesis
    by (rule login_nonstring_password_reveals_email
          [where bcompare = demo_compare and sign = demo_sign, OF 1 2 3 4 5 6 7 8])
qed

section \<open>Placeholder entries of the report payloads\<close>

text \<open>
  Claim C8. In every report object that \<open>GET /reports\<close> returns, in the \<open>report\<close> entry
  of a successful \<open>POST /reports\<close> and in the body of a successful \<open>GET /reports/:id\<close>,
  \<open>total_registered_students\<close>, \<open>venue\<close>, \<open>scheduled_time\<close> and \<open>faculty_name\<close> are
  50, "Room 101", "10:00" and "Faculty of ICT", whatever the store holds.
\<close>

theorem report_placeholders:
  "list_all placeholders (elements (body (fst (get_reports user d))))
   \<and> (status (fst (post_report user reqbody d)) = 201 \<longrightarrow>
        placeholders (field (body (fst (post_report user reqbody d))) ''report''))
   \<and> (status (fst (get_report user reportId d)) = 200 \<longrightarrow>
        placeholders (body (fst (get_report user reportId d))))"
proof (intro conjI impI)
  show "list_all placeholders (elements (body (fst (get_reports user d))))"
    by (simp add: get_reports_response list_all_iff placeholders_reshape)
next
  assume "status (fst (post_report user reqbody d)) = 201"
  then obtain row where "body (fst (post_report user reqbody d))
      = JObj [(''success'', JBool True), (''report'', JObj (reshape row (JStr [])))]"
    using post_report_201 by blast
  then show "placeholders (field (body (fst (post_report user reqbody d))) ''report'')"
    by (simp add: placeholders_reshape)
next
  assume "status (fst (get_report user reportId d)) = 200"
  then obtain row where "body (fst (get_report user reportId d)) = JObj (reshape row (JStr []))"
    using get_report_200 by blast
  then show "placeholders (body (fst (get_report user reportId d)))"
    by (simp add: placeholders_reshape)
qed

theorem report_placeholders_witness:
  "length (elements (body (fst (get_reports (demo_token 3 ''pl'' ''P'') demo_db)))) = 2
   \<and> list_all placeholders (elements (body (fst (get_reports (demo_token 3 ''pl'' ''P'') demo_db))))
   \<and> status (fst (post_report (demo_token 1 ''lecturer'' ''A'') demo_report_body demo_db)) = 201
   \<and> placeholders
        (field (body (fst (post_report (demo_token 1 ''lecturer'' ''A'') demo_report_body demo_db)))
           ''report'')
   \<and> status (fst (get_report (demo_token 1 ''lecturer'' ''A'') ''20'' demo_db)) = 200
   \<and> placeholders (body (fst (get_report (demo_token 1 ''lecturer'' ''A'') ''20'' demo_db)))"
proof -
  have n: "length (elements (body (fst (get_reports (demo_token 3 ''pl'' ''P'') demo_db)))) = 2"
    by code_simp
  have c: "status (fst (post_report (demo_token 1 ''lecturer'' ''A'') demo_report_body demo_db)) = 201"
    by code_simp
  have g: "status (fst (get_report (demo_token 1 ''lecturer'' ''A'') ''20'' demo_db)) = 200"
    by code_simp
  show ?thesis
    using n c g
      report_placeholders [of "demo_token 3 ''pl'' ''P''" demo_db]
      report_placeholders [of "demo_token 1 ''lecturer'' ''A''" demo_db demo_report_body "''20''"]
    by blast
qed

section \<open>Class update: the patch and the ownership it can move\<close>

text \<open>
  The one row an update matches is replaced by its patched version; every other row of
  the table stays as it is.
\<close>

lemma update_classes_replaces:
  assumes exist: "eq_filter ''id'' v (map JObj (classes d)) = [JObj c]"
  shows "update_classes patch v d
           = (ok (JArr [JObj (patch_row (wire patch) c)]),
              d\<lparr>classes := map (\<lambda>r. if r = c then patch_row (wire patch) c else r)
                                (classes d)\<rparr>)"
proof -
  let ?hit = "\<lambda>r. db_eq (field (JObj r) ''id'') v"
  from exist have f: "filter ?hit (classes d) = [c]"
    by (simp add: eq_filter_map_JObj map_eq_Cons_conv del: field.simps)
  have only: "\<And>r. r \<in> set (classes d) \<Longrightarrow> ?hit r \<longleftrightarrow> r = c"
  proof -
    fix r assume r: "r \<in> set (classes d)"
    have "set (filter ?hit (classes d)) = {c}"
      by (simp only: f list.set)
    then have "{x \<in> set (classes d). ?hit x} = {c}"
      by (simp only: set_filter)
    with r show "?hit r \<longleftrightarrow> r = c" by blast
  qed
  have "map (\<lambda>r. if ?hit r then patch_row (wire patch) r else r) (classes d)
          = map (\<lambda>r. if r = c then patch_row (wire patch) c else r) (classes d)"
    by (rule map_cong) (simp_all add: only del: field.simps)
  then show ?thesis
    by (simp add: update_classes_def Let_def f del: field.simps)
qed

text \<open>
  Claim C9, as amended. \<open>PUT /classes/:id\<close> writes the request body as the patch with one
  change only: a truthy \<open>capacity\<close> is replaced by \<open>parseInt\<close> of it. The patch has the
  keys of the body, in the same order, and under every key but that one the value of
  the body. For an existing class and an authorized caller (any \<open>pl\<close>, or the recorded
  creator) the handler gives this patch to the one update it issues and answers 200 with
  the patched row, which takes the place of the class in the store: its \<open>capacity\<close> is the
  number \<open>parseInt\<close> read (or \<open>null\<close> where it read none), its \<open>created_by\<close> is the string
  the body sent, and what the body does not name is kept. So an authorized caller who
  sends a \<open>created_by\<close>, in a body that leaves \<open>id\<close> alone, moves the ownership: from then
  on a caller whose role is not \<open>pl\<close> gets 403 from update and from delete exactly when
  the caller's name is not the string that was sent.
\<close>

theorem put_class_patch_unfiltered:
  assumes exist: "eq_filter ''id'' (JStr classId) (map JObj (classes d)) = [JObj c]"
    and auth: "field user ''role'' = JStr ''pl''
               \<or> strict_eq (field (JObj c) ''created_by'') (field user ''name'')"
  shows "map fst (put_class_updates parse updates) = map fst updates
         \<and> (\<forall>k. field (JObj (put_class_updates parse updates)) k
                  = (if k = ''capacity'' \<and> truthy (field (JObj updates) ''capacity'')
                     then parse (field (JObj updates) ''capacity'')
                     else field (JObj updates) k))
         \<and> snd (put_class_with parse user classId updates d)
             = snd (update_classes (put_class_updates parse updates) (JStr classId) d)
         \<and> (\<exists>c'. put_class_with parse user classId updates d
                    = (Response 200 (JObj [(''success'', JBool True), (''class'', JObj c')]),
                       d\<lparr>classes := map (\<lambda>r. if r = c then c' else r) (classes d)\<rparr>)
                \<and> (\<forall>m. truthy (field (JObj updates) ''capacity'')
                         \<and> parse (field (JObj updates) ''capacity'') = JNum m
                       \<longrightarrow> field (JObj c') ''capacity'' = JNum m)
                \<and> (truthy (field (JObj updates) ''capacity'')
                      \<and> parse (field (JObj updates) ''capacity'') = JNaN
                    \<longrightarrow> field (JObj c') ''capacity'' = JNull)
                \<and> (\<forall>n. map_of updates ''created_by'' = Some (JStr n)
                       \<longrightarrow> field (JObj c') ''created_by'' = JStr n)
                \<and> (\<forall>k. map_of updates k = None \<longrightarrow> field (JObj c') k = field (JObj c) k)
                \<and> (\<forall>n. map_of updates ''id'' = None
                         \<and> map_of updates ''created_by'' = Some (JStr n)
                       \<longrightarrow> (\<forall>user2 updates2. field user2 ''role'' \<noteq> JStr ''pl'' \<longrightarrow>
                              (status (fst (put_class_with parse user2 classId updates2
                                              (snd (put_class_with parse user classId updates d))))
                                 = 403
                               \<longleftrightarrow> field user2 ''name'' \<noteq> JStr n)
                              \<and> (status (fst (delete_class user2 classId
                                                (snd (put_class_with parse user classId updates d))))
                                    = 403
                                  \<longleftrightarrow> field user2 ''name'' \<noteq> JStr n))))"
proof -
  let ?p = "put_class_updates parse updates"
  let ?cap = "field (JObj updates) ''capacity''"
  let ?c' = "patch_row (wire ?p) c"
  let ?d' = "snd (put_class_with parse user classId updates d)"
  have keys: "map fst ?p = map fst updates"
    by (rule put_class_updates_keys)
  have fields: "\<forall>k. field (JObj ?p) k
                  = (if k = ''capacity'' \<and> truthy ?cap then parse ?cap else field (JObj updates) k)"
    by (simp only: put_class_updates_field simp_thms)
  note upd = update_classes_replaces [OF exist, of ?p]
  have allowed: "\<not> (\<not> strict_eq (field user ''role'') (JStr ''pl'')
                 \<and> \<not> strict_eq (field (JObj c) ''created_by'') (field user ''name''))"
    using auth by auto
  have run: "put_class_with parse user classId updates d
               = (Response 200 (JObj [(''success'', JBool True), (''class'', JObj ?c')]),
                  d\<lparr>classes := map (\<lambda>r. if r = c then ?c' else r) (classes d)\<rparr>)"
    using allowed by (simp add: put_class_with_def exist upd del: field.simps strict_eq_str)
  have issued: "?d' = snd (update_classes ?p (JStr classId) d)"
    by (simp only: run upd snd_conv)
  have capnum: "\<forall>m. truthy ?cap \<and> parse ?cap = JNum m \<longrightarrow> field (JObj ?c') ''capacity'' = JNum m"
  proof (intro allI impI)
    fix m assume a: "truthy ?cap \<and> parse ?cap = JNum m"
    then have "map_of ?p ''capacity'' = Some (JNum m)"
      using put_class_updates_capacity [of updates parse] by simp
    then have "map_of (wire ?p) ''capacity'' = Some (JNum m)"
      using map_of_wire_Some [of ?p "''capacity''" "JNum m"] by simp
    then show "field (JObj ?c') ''capacity'' = JNum m"
      by (simp add: field_patch_row del: field.simps)
  qed
  have capnan: "truthy ?cap \<and> parse ?cap = JNaN \<longrightarrow> field (JObj ?c') ''capacity'' = JNull"
  proof
    assume a: "truthy ?cap \<and> parse ?cap = JNaN"
    then have "map_of ?p ''capacity'' = Some JNaN"
      using put_class_updates_capacity [of updates parse] by simp
    then have "map_of (wire ?p) ''capacity'' = Some JNull"
      using map_of_wire_Some [of ?p "''capacity''" JNaN] by simp
    then show "field (JObj ?c') ''capacity'' = JNull"
      by (simp add: field_patch_row del: field.simps)
  qed
  have owner: "\<forall>n. map_of updates ''created_by'' = Some (JStr n)
                 \<longrightarrow> field (JObj ?c') ''created_by'' = JStr n"
  proof (intro allI impI)
    fix n assume "map_of updates ''created_by'' = Some (JStr n)"
    then have "map_of ?p ''created_by'' = Some (JStr n)"
      by (simp add: put_class_updates_other)
    then have "map_of (wire ?p) ''created_by'' = Some (JStr n)"
      using map_of_wire_Some [of ?p "''created_by''" "JStr n"] by simp
    then show "field (JObj ?c') ''created_by'' = JStr n"
      by (simp add: field_patch_row del: field.simps)
  qed
  have kept: "\<forall>k. map_of updates k = None \<longrightarrow> field (JObj ?c') k = field (JObj c) k"
  proof (intro allI impI)
    fix k :: string assume n: "map_of updates k = None"
    have "map_of ?p k = None"
    proof (cases "k = ''capacity''")
      case True
      with n have "\<not> truthy ?cap" by simp
      then show ?thesis using n by (simp add: put_class_updates_def del: field.simps)
    next
      case False
      then show ?thesis using n by (simp add: put_class_updates_other)
    qed
    then have "map_of (wire ?p) k = None"
      by (rule map_of_wire_None)
    then show "field (JObj ?c') k = field (JObj c) k"
      by (simp add: field_patch_row del: field.simps)
  qed
  have later: "\<forall>n. map_of updates ''id'' = None \<and> map_of updates ''created_by'' = Some (JStr n)
                 \<longrightarrow> (\<forall>user2 updates2. field user2 ''role'' \<noteq> JStr ''pl'' \<longrightarrow>
                        (status (fst (put_class_with parse user2 classId updates2 ?d')) = 403
                           \<longleftrightarrow> field user2 ''name'' \<noteq> JStr n)
                        \<and> (status (fst (delete_class user2 classId ?d')) = 403
                              \<longleftrightarrow> field user2 ''name'' \<noteq> JStr n))"
  proof (intro allI impI)
    fix n user2 updates2
    assume b: "map_of updates ''id'' = None \<and> map_of updates ''created_by'' = Some (JStr n)"
      and r2: "field user2 ''role'' \<noteq> JStr ''pl''"
    have noid': "map_of ?p ''id'' = None"
      using b by (simp add: put_class_updates_other)
    have ex': "eq_filter ''id'' (JStr classId) (map JObj (classes ?d')) = [JObj ?c']"
      using update_classes_keeps_id(2) [OF exist noid'] by (simp only: issued)
    have cb: "field (JObj ?c') ''created_by'' = JStr n"
      using owner b by blast
    have s: "strict_eq (JStr n) (field user2 ''name'') \<longleftrightarrow> field user2 ''name'' = JStr n"
      by auto
    have x: "status (fst (put_class_with parse user2 classId updates2 ?d')) = 403
               \<longleftrightarrow> field user2 ''name'' \<noteq> JStr n"
      using put_class_403_iff [OF ex' r2, of parse updates2] by (simp only: cb s)
    have y: "status (fst (delete_class user2 classId ?d')) = 403
               \<longleftrightarrow> field user2 ''name'' \<noteq> JStr n"
      using delete_class_403_iff [OF ex' r2] by (simp only: cb s)
    show "(status (fst (put_class_with parse user2 classId updates2 ?d')) = 403
             \<longleftrightarrow> field user2 ''name'' \<noteq> JStr n)
          \<and> (status (fst (delete_class user2 classId ?d')) = 403
                \<longleftrightarrow> field user2 ''name'' \<noteq> JStr n)"
      by (rule conjI [OF x y])
  qed
  have inner: "\<exists>c'. put_class_with parse user classId updates d
                    = (Response 200 (JObj [(''success'', JBool True), (''class'', JObj c')]),
                       d\<lparr>classes := map (\<lambda>r. if r = c then c' else r) (classes d)\<rparr>)
                \<and> (\<forall>m. truthy ?cap \<and> parse ?cap = JNum m \<longrightarrow> field (JObj c') ''capacity'' = JNum m)
                \<and> (truthy ?cap \<and> parse ?cap = JNaN \<longrightarrow> field (JObj c') ''capacity'' = JNull)
                \<and> (\<forall>n. map_of updates ''created_by'' = Some (JStr n)
                       \<longrightarrow> field (JObj c') ''created_by'' = JStr n)
                \<and> (\<forall>k. map_of updates k = None \<longrightarrow> field (JObj c') k = field (JObj c) k)
                \<and> (\<forall>n. map_of updates ''id'' = None
                         \<and> map_of updates ''created_by'' = Some (JStr n)
                       \<longrightarrow> (\<forall>user2 updates2. field user2 ''role'' \<noteq> JStr ''pl'' \<longrightarrow>
                              (status (fst (put_class_with parse user2 classId updates2 ?d')) = 403
                               \<longleftrightarrow> field user2 ''name'' \<noteq> JStr n)
                              \<and> (status (fst (delete_class user2 classId ?d')) = 403
                                  \<longleftrightarrow> field user2 ''name'' \<noteq> JStr n)))"
    by (rule exI [of _ ?c'], intro conjI) (rule run capnum capnan owner kept later)+
  show ?thesis
    by (intro conjI) (rule keys fields issued inner)+
qed

theorem put_class_patch_unfiltered_witness:
  "status (fst (put_class (demo_token 1 ''lecturer'' ''A'') ''10''
                  [(''capacity'', JStr ''40 seats''), (''created_by'', JStr ''B'')] demo_db)) = 200
   \<and> map (\<lambda>r. field r ''capacity'')
         (map JObj (classes (snd (put_class (demo_token 1 ''lecturer'' ''A'') ''10''
                      [(''capacity'', JStr ''40 seats''), (''created_by'', JStr ''B'')] demo_db))))
       = [JNum 40]
   \<and> status (fst (put_class (demo_token 2 ''lecturer'' ''B'') ''10'' [(''venue'', JStr ''Hall'')]
                    (snd (put_class (demo_token 1 ''lecturer'' ''A'') ''10''
                            [(''capacity'', JStr ''40 seats''), (''created_by'', JStr ''B'')]
                            demo_db)))) \<noteq> 403
   \<and> status (fst (delete_class (demo_token 1 ''lecturer'' ''A'') ''10''
                    (snd (put_class (demo_token 1 ''lecturer'' ''A'') ''10''
                            [(''capacity'', JStr ''40 seats''), (''created_by'', JStr ''B'')]
                            demo_db)))) = 403"
proof -
  let ?a = "demo_token 1 ''lecturer'' ''A''"
  let ?b = "demo_token 2 ''lecturer'' ''B''"
  let ?u = "[(''capacity'', JStr ''40 seats''), (''created_by'', JStr ''B'')]"
  let ?d' = "snd (put_class_with parseInt ?a ''10'' ?u demo_db)"
  have e: "eq_filter ''id'' (JStr ''10'') (map JObj (classes demo_db)) = [JObj demo_class]"
    by code_simp
  have au: "field ?a ''role'' = JStr ''pl''
            \<or> strict_eq (field (JObj demo_class) ''created_by'') (field ?a ''name'')"
    by code_simp
  have ni: "map_of ?u ''id'' = None \<and> map_of ?u ''created_by'' = Some (JStr ''B'')" by simp
  have tc: "truthy (field (JObj ?u) ''capacity'')
            \<and> parseInt (field (JObj ?u) ''capacity'') = JNum 40"
    by code_simp
  have ra: "field ?a ''role'' \<noteq> JStr ''pl''" by (simp add: demo_token_def)
  have rb: "field ?b ''role'' \<noteq> JStr ''pl''" by (simp add: demo_token_def)
  have na: "field ?a ''name'' \<noteq> JStr ''B''" by (simp add: demo_token_def)
  have nb: "\<not> field ?b ''name'' \<noteq> JStr ''B''" by (simp add: demo_token_def)
  from put_class_patch_unfiltered [OF e au, of parseInt ?u]
  obtain c' where
    run: "put_class_with parseInt ?a ''10'' ?u demo_db
            = (Response 200 (JObj [(''success'', JBool True), (''class'', JObj c')]),
               demo_db\<lparr>classes := map (\<lambda>r. if r = demo_class then c' else r) (classes demo_db)\<rparr>)"
    and cap: "\<forall>m. truthy (field (JObj ?u) ''capacity'')
                 \<and> parseInt (field (JObj ?u) ''capacity'') = JNum m
               \<longrightarrow> field (JObj c') ''capacity'' = JNum m"
    and later: "\<forall>n. map_of ?u ''id'' = None \<and> map_of ?u ''created_by'' = Some (JStr n)
                 \<longrightarrow> (\<forall>user2 updates2. field user2 ''role'' \<noteq> JStr ''pl'' \<longrightarrow>
                        (status (fst (put_class_with parseInt user2 ''10'' updates2 ?d')) = 403
                           \<longleftrightarrow> field user2 ''name'' \<noteq> JStr n)
                        \<and> (status (fst (delete_class user2 ''10'' ?d')) = 403
                              \<longleftrightarrow> field user2 ''name'' \<noteq> JStr n))"
    by blast
  have s: "status (fst (put_class_with parseInt ?a ''10'' ?u demo_db)) = 200"
    by (subst run) simp
  have c40: "field (JObj c') ''capacity'' = JNum 40"
    using cap tc by blast
  have cls: "classes demo_db = [demo_class]"
    by (simp add: demo_db_def)
  have st: "map (\<lambda>r. field r ''capacity'') (map JObj (classes ?d')) = [JNum 40]"
    by (subst run) (simp add: cls c40 del: field.simps)
  have l: "status (fst (put_class_with parseInt ?b ''10'' [(''venue'', JStr ''Hall'')] ?d')) \<noteq> 403
           \<and> status (fst (delete_class ?a ''10'' ?d')) = 403"
    using later ni ra rb na nb by blast
  show ?thesis
    unfolding put_class_def using s st l by blast
qed

text \<open>
  As stated, with the body written verbatim, the claim fails on \<open>capacity\<close>: the body
  \<open>{capacity: "40 seats"}\<close> is not the patch, and the number 40 is what gets stored.
\<close>

theorem put_class_verbatim_counterexample:
  "put_class_updates parseInt [(''capacity'', JStr ''40 seats'')]
     \<noteq> [(''capacity'', JStr ''40 seats'')]
   \<and> map (\<lambda>r. field r ''capacity'')
         (eq_filter ''id'' (JStr ''10'')
            (map JObj (classes (snd (put_class (demo_token 1 ''lecturer'' ''A'') ''10''
                                      [(''capacity'', JStr ''40 seats'')] demo_db)))))
       = [JNum 40]"
  by code_simp

section \<open>Report creation: zero counts as missing\<close>

text \<open>
  Claim C10. \<open>POST /reports\<close> tests its required fields for truthiness, so a request
  whose \<open>week\<close> or \<open>actual_students\<close> is the number 0 is answered exactly like one where
  that field is absent: status 400 with the required-fields message, and no row is
  inserted.
\<close>

theorem post_report_zero_rejected:
  assumes "field (JObj reqbody) ''week'' = JNum 0
           \<or> field (JObj reqbody) ''actual_students'' = JNum 0"
    and "field (JObj absent) ''week'' = JUndefined
         \<or> field (JObj absent) ''actual_students'' = JUndefined"
  shows "post_report user reqbody d
           = (Response 400
                (err_body ''Class, week, date, topic, and actual students are required''), d)
         \<and> post_report user reqbody d = post_report user absent d"
proof -
  have a: "post_report user reqbody d
           = (Response 400
                (err_body ''Class, week, date, topic, and actual students are required''), d)"
    using assms(1) by (auto simp add: post_report_def Let_def)
  have b: "post_report user absent d
           = (Response 400
                (err_body ''Class, week, date, topic, and actual students are required''), d)"
    using assms(2) by (auto simp add: post_report_def Let_def)
  show ?thesis using a b by simp
qed

theorem post_report_zero_rejected_witness:
  "post_report (demo_token 1 ''lecturer'' ''A'')
     [(''class_id'', JStr ''10''), (''week'', JNum 0), (''date'', JStr ''2024-03-18''),
      (''topic'', JStr ''Maps''), (''actual_students'', JNum 30)] demo_db
   = (Response 400
        (err_body ''Class, week, date, topic, and actual students are required''), demo_db)
   \<and> post_report (demo_token 1 ''lecturer'' ''A'')
       [(''class_id'', JStr ''10''), (''week'', JNum 0), (''date'', JStr ''2024-03-18''),
        (''topic'', JStr ''Maps''), (''actual_students'', JNum 30)] demo_db
     = post_report (demo_token 1 ''lecturer'' ''A'')
         [(''class_id'', JStr ''10''), (''date'', JStr ''2024-03-18''),
          (''topic'', JStr ''Maps''), (''actual_students'', JNum 30)] demo_db"
proof -
  let ?z = "[(''class_id'', JStr ''10''), (''week'', JNum 0), (''date'', JStr ''2024-03-18''),
             (''topic'', JStr ''Maps''), (''actual_students'', JNum 30)]"
  let ?m = "[(''class_id'', JStr ''10''), (''date'', JStr ''2024-03-18''),
             (''topic'', JStr ''Maps''), (''actual_students'', JNum 30)]"
  have z: "field (JObj ?z) ''week'' = JNum 0 \<or> field (JObj ?z) ''actual_students'' = JNum 0"
    by simp
  have m: "field (JObj ?m) ''week'' = JUndefined
           \<or> field (JObj ?m) ''actual_students'' = JUndefined"
    by simp
  show ?thesis
    by (rule post_report_zero_rejected [OF z m])
qed

end
